theory Spec2Isabelle
  imports Complex_Main
begin

section \<open>Data model of \<open>mimic/evaluation.py\<close>\<close>

text \<open>
  A pandas DataFrame is modelled column by column: an association list from column
  labels to the column's values, in the order of \<open>df.columns\<close>. Column labels of a
  DataFrame are taken to be unique (\<open>pd.DataFrame(array)\<close> in the script labels them
  \<open>0..n-1\<close>). A two-dimensional numpy array is the list of its columns.

  Cell values and scores are Python/numpy floats. They are modelled as real numbers:
  a value of the model is a finite number, and arithmetic on it is exact. Cells are
  taken to be values that \<open>float32\<close> holds exactly (the tables of the script hold the
  integers 0 and 1), so that \<open>astype('float32')\<close> is the identity. A score that is
  NaN or infinite, and the rounding of a sum of floats (which depends on the order of
  the summands), have no counterpart in the model; a property that rests on them is
  not stated here.
\<close>

type_synonym vector = "real list"
type_synonym matrix = "vector list"
type_synonym 'c dataframe = "('c \<times> vector) list"

text \<open>
  The exceptions the module can raise. \<open>ColumnsNotIdentical\<close> is
  \<open>Exception('Columns of given datasets are not identical.')\<close>; \<open>RuntimeError\<close> is what a
  bare \<open>raise\<close> outside a handler raises (no active exception to re-raise);
  \<open>LibraryError\<close> stands for any exception raised by the caller-supplied model or
  scoring function. All of them derive from \<open>Exception\<close>; asynchronous interpreter
  signals are not modelled.
\<close>

datatype 'c exn =
    ColumnsNotIdentical
  | KeyError 'c
  | RuntimeError
  | IndexError
  | ZeroDivisionError
  | LibraryError string

text \<open>
  What the module writes: the three \<open>print\<close> calls of the column loop, and the
  scatter plot and the CSV file of the \<open>plot\<close> branch, each with the two lists of
  values it shows. Printing, plotting and writing files are taken not to raise.
\<close>

datatype 'c effect =
    PrintScores nat real real
  | PrintExn "'c exn"
  | PrintFailed nat
  | SaveFig string vector vector
  | ToCsv string vector vector

definition columns :: "'c dataframe \<Rightarrow> 'c list" where
  "columns df = map fst df"

definition getitem :: "'c dataframe \<Rightarrow> 'c \<Rightarrow> 'c exn + vector" where
  \<comment> \<open>\<open>df[column]\<close>\<close>
  "getitem df column =
     (case map_of df column of None \<Rightarrow> Inl (KeyError column) | Some v \<Rightarrow> Inr v)"

definition drop_columns :: "'c dataframe \<Rightarrow> 'c \<Rightarrow> 'c exn + 'c dataframe" where
  \<comment> \<open>\<open>df.drop(columns=[column])\<close>\<close>
  "drop_columns df column =
     (if column \<in> set (columns df) then Inr (filter (\<lambda>p. fst p \<noteq> column) df)
      else Inl (KeyError column))"

definition values_of :: "'c dataframe \<Rightarrow> matrix" where
  \<comment> \<open>\<open>df.values\<close>\<close>
  "values_of df = map snd df"

definition isolate_column :: "'c dataframe \<Rightarrow> 'c \<Rightarrow> 'c exn + (matrix \<times> vector)" where
  "isolate_column df column =
     (case drop_columns df column of
        Inl e \<Rightarrow> Inl e
      | Inr rest \<Rightarrow>
          (case getitem df column of
             Inl e \<Rightarrow> Inl e
           | Inr y \<Rightarrow> Inr (values_of rest, y)))"

section \<open>numpy helpers\<close>

definition np_unique :: "vector \<Rightarrow> vector" where
  \<comment> \<open>\<open>np.unique(a)\<close>: the sorted distinct values\<close>
  "np_unique a = sort (remdups a)"

definition np_unique_counts :: "vector \<Rightarrow> nat list" where
  \<comment> \<open>the second component of \<open>np.unique(a, return_counts=True)\<close>\<close>
  "np_unique_counts a = map (count_list a) (np_unique a)"

definition np_full :: "nat \<Rightarrow> real \<Rightarrow> vector" where
  "np_full n v = replicate n v"

definition first_label :: "vector \<Rightarrow> 'c exn + real" where
  \<comment> \<open>\<open>y_train[0]\<close>\<close>
  "first_label y = (case y of [] \<Rightarrow> Inl IndexError | v # _ \<Rightarrow> Inr v)"

definition column_1 :: "matrix \<Rightarrow> 'c exn + vector" where
  \<comment> \<open>\<open>a[:,1]\<close> on a two-dimensional array\<close>
  "column_1 a = (case a of _ # c # _ \<Rightarrow> Inr c | _ \<Rightarrow> Inl IndexError)"

section \<open>The caller-supplied model and scoring function\<close>

text \<open>
  \<open>Model\<close> and \<open>score\<close> are arbitrary Python callables: they may raise and they may
  depend on and change state of their own (random generators, caches). Each call
  therefore takes the state \<open>'w\<close> of that outside world and returns the new one
  together with its result or its exception.
\<close>

record ('c, 'clf, 'w) model =
  init :: "'w \<Rightarrow> ('c exn + 'clf) \<times> 'w"
  fit :: "'clf \<Rightarrow> matrix \<Rightarrow> vector \<Rightarrow> 'w \<Rightarrow> ('c exn + 'clf) \<times> 'w"
  predict_proba :: "'clf \<Rightarrow> matrix \<Rightarrow> 'w \<Rightarrow> ('c exn + matrix) \<times> 'w"

type_synonym ('c, 'w) scorer = "vector \<Rightarrow> vector \<Rightarrow> 'w \<Rightarrow> ('c exn + real) \<times> 'w"

section \<open>\<open>get_prediction_score\<close>\<close>

definition fit_predict ::
  "('c, 'clf, 'w) model \<Rightarrow> 'clf \<Rightarrow> matrix \<Rightarrow> vector \<Rightarrow> matrix \<Rightarrow> 'w \<Rightarrow> ('c exn + vector) \<times> 'w" where
  \<comment> \<open>the body of the \<open>try\<close>: \<open>clf.fit(X_train, y_train)\<close>, then \<open>clf.predict_proba(X_test)[:,1]\<close>\<close>
  "fit_predict Model clf X_train y_train X_test w =
     (case fit Model clf X_train y_train w of
        (Inl e, w1) \<Rightarrow> (Inl e, w1)
      | (Inr clf', w1) \<Rightarrow>
          (case predict_proba Model clf' X_test w1 of
             (Inl e, w2) \<Rightarrow> (Inl e, w2)
           | (Inr proba, w2) \<Rightarrow> (column_1 proba, w2)))"

definition get_prediction_score ::
  "matrix \<Rightarrow> vector \<Rightarrow> matrix \<Rightarrow> vector \<Rightarrow> ('c, 'clf, 'w) model \<Rightarrow> ('c, 'w) scorer \<Rightarrow>
     'w \<Rightarrow> ('c exn + real) \<times> 'w" where
  "get_prediction_score X_train y_train X_test y_test Model score w =
     (if length (np_unique y_train) = 0 \<or> length (np_unique y_test) = 0
      then (Inl RuntimeError, w)
      else
        (case init Model w of
           (Inl e, w1) \<Rightarrow> (Inl e, w1)
         | (Inr clf, w1) \<Rightarrow>
             (case fit_predict Model clf X_train y_train X_test w1 of
                (Inr prediction, w2) \<Rightarrow> score y_test prediction w2
              | (Inl _, w2) \<Rightarrow>
                  (case first_label y_train of
                     Inl e \<Rightarrow> (Inl e, w2)
                   | Inr v \<Rightarrow> score y_test (np_full (length y_test) v) w2))))"

section \<open>\<open>feature_prediction_evaluation\<close>\<close>

record ('c, 'w) env =
  real_classifier_scores :: "real list"
  synthetic_classifier_scores :: "real list"
  stdout :: "'c effect list"
  world :: 'w

definition empty_env :: "'w \<Rightarrow> ('c, 'w) env" where
  \<comment> \<open>\<open>real_classifier_scores, synthetic_classifier_scores = [], []\<close>, nothing printed yet\<close>
  "empty_env w = \<lparr>real_classifier_scores = [], synthetic_classifier_scores = [],
                  stdout = [], world = w\<rparr>"

definition try_column ::
  "nat \<Rightarrow> matrix \<Rightarrow> vector \<Rightarrow> matrix \<Rightarrow> vector \<Rightarrow> matrix \<Rightarrow> vector \<Rightarrow>
     ('c, 'clf, 'w) model \<Rightarrow> ('c, 'w) scorer \<Rightarrow> ('c, 'w) env \<Rightarrow> ('c, 'w) env" where
  \<comment> \<open>the \<open>try ... except Exception as e\<close> of the column loop\<close>
  "try_column i X_train_real y_train_real X_train_synthetic y_train_synthetic X_test y_test
       Model score st =
     (case get_prediction_score X_train_real y_train_real X_test y_test Model score (world st) of
        (Inl e, w1) \<Rightarrow>
          st\<lparr>stdout := stdout st @ [PrintExn e, PrintFailed i], world := w1\<rparr>
      | (Inr real_score, w1) \<Rightarrow>
          (case get_prediction_score X_train_synthetic y_train_synthetic X_test y_test
                  Model score w1 of
             (Inl e, w2) \<Rightarrow>
               st\<lparr>stdout := stdout st @ [PrintExn e, PrintFailed i], world := w2\<rparr>
           | (Inr synthetic_score, w2) \<Rightarrow>
               st\<lparr>real_classifier_scores := real_classifier_scores st @ [real_score],
                  synthetic_classifier_scores :=
                    synthetic_classifier_scores st @ [synthetic_score],
                  stdout := stdout st @ [PrintScores i real_score synthetic_score],
                  world := w2\<rparr>))"

fun column_loop ::
  "'c dataframe \<Rightarrow> 'c dataframe \<Rightarrow> 'c dataframe \<Rightarrow> ('c, 'clf, 'w) model \<Rightarrow> ('c, 'w) scorer \<Rightarrow>
     (nat \<times> 'c) list \<Rightarrow> ('c, 'w) env \<Rightarrow> 'c exn option \<times> ('c, 'w) env" where
  \<comment> \<open>\<open>for i, column in enumerate(train.columns)\<close>; \<open>Some e\<close> is an exception leaving the loop\<close>
  "column_loop train test synthetic Model score [] st = (None, st)"
| "column_loop train test synthetic Model score ((i, column) # rest) st =
     (case isolate_column train column of
        Inl e \<Rightarrow> (Some e, st)
      | Inr (X_train_real, y_train_real) \<Rightarrow>
     (case isolate_column synthetic column of
        Inl e \<Rightarrow> (Some e, st)
      | Inr (X_train_synthetic, y_train_synthetic) \<Rightarrow>
     (case isolate_column test column of
        Inl e \<Rightarrow> (Some e, st)
      | Inr (X_test, y_test) \<Rightarrow>
          column_loop train test synthetic Model score rest
            (try_column i X_train_real y_train_real X_train_synthetic y_train_synthetic
               X_test y_test Model score st))))"

definition squared_differences :: "real list \<Rightarrow> real list \<Rightarrow> real" where
  \<comment> \<open>\<open>sum(map(lambda pair: (pair[0] - pair[1]) ** 2, zip(a, b)))\<close>\<close>
  "squared_differences a b = sum_list (map (\<lambda>pair. (fst pair - snd pair)\<^sup>2) (zip a b))"

definition feature_prediction_evaluation ::
  "'c dataframe \<Rightarrow> 'c dataframe \<Rightarrow> 'c dataframe \<Rightarrow> ('c, 'clf, 'w) model \<Rightarrow> ('c, 'w) scorer \<Rightarrow>
     real \<Rightarrow> bool \<Rightarrow> 'w \<Rightarrow> ('c exn + real) \<times> ('c, 'w) env" where
  "feature_prediction_evaluation train test synthetic Model score training_proportion plot w =
     (if set (columns train) \<noteq> set (columns synthetic)
      then (Inl ColumnsNotIdentical, empty_env w)
      else
        (case column_loop train test synthetic Model score
                (enumerate 0 (columns train)) (empty_env w) of
           (Some e, st) \<Rightarrow> (Inl e, st)
         | (None, st) \<Rightarrow>
             (let st' =
                (if plot
                 then st\<lparr>stdout := stdout st @
                        [SaveFig ''dw-pred.png'' (real_classifier_scores st)
                           (synthetic_classifier_scores st),
                         ToCsv ''dw-pred.csv'' (real_classifier_scores st)
                           (synthetic_classifier_scores st)]\<rparr>
                 else st)
              in (Inr (squared_differences (real_classifier_scores st')
                         (synthetic_classifier_scores st')), st'))))"

section \<open>\<open>feature_probabilities_evaluation\<close>\<close>

definition py_div :: "nat \<Rightarrow> nat \<Rightarrow> 'c exn + real" where
  \<comment> \<open>true division of non-negative integers\<close>
  "py_div a b = (if b = 0 then Inl ZeroDivisionError else Inr (real a / real b))"

definition index_1_count :: "nat list \<Rightarrow> nat" where
  \<comment> \<open>\<open>0 if len(counts) <= 1 else counts[1]\<close>\<close>
  "index_1_count counts = (if length counts \<le> 1 then 0 else counts ! 1)"

fun props_loop ::
  "'c dataframe \<Rightarrow> 'c dataframe \<Rightarrow> 'c list \<Rightarrow> ('c \<times> real \<times> real) list \<Rightarrow>
     'c exn + ('c \<times> real \<times> real) list" where
  \<comment> \<open>\<open>for column in real.columns\<close>: each label of the index of \<open>props\<close> gets its row
      once, in the order of the index\<close>
  "props_loop real_df synthetic [] props = Inr props"
| "props_loop real_df synthetic (column # rest) props =
     (case getitem real_df column of
        Inl e \<Rightarrow> Inl e
      | Inr real_column \<Rightarrow>
     (case getitem synthetic column of
        Inl e \<Rightarrow> Inl e
      | Inr synthetic_column \<Rightarrow>
     (case py_div (index_1_count (np_unique_counts real_column)) (length real_column) of
        Inl e \<Rightarrow> Inl e
      | Inr p_real \<Rightarrow>
     (case py_div (index_1_count (np_unique_counts synthetic_column))
             (length synthetic_column) of
        Inl e \<Rightarrow> Inl e
      | Inr p_synthetic \<Rightarrow>
          props_loop real_df synthetic rest (props @ [(column, p_real, p_synthetic)])))))"

definition feature_probabilities_evaluation ::
  "'c dataframe \<Rightarrow> 'c dataframe \<Rightarrow> bool \<Rightarrow> ('c exn + real) \<times> 'c effect list" where
  "feature_probabilities_evaluation real_df synthetic plot =
     (if set (columns real_df) \<noteq> set (columns synthetic)
      then (Inl ColumnsNotIdentical, [])
      else
        (case props_loop real_df synthetic (columns real_df) [] of
           Inl e \<Rightarrow> (Inl e, [])
         | Inr props \<Rightarrow>
             (let props_real = map (\<lambda>r. fst (snd r)) props;
                  props_synthetic = map (\<lambda>r. snd (snd r)) props
              in (Inr (squared_differences props_real props_synthetic),
                  if plot
                  then [SaveFig ''dw-prob.png'' props_real props_synthetic,
                        ToCsv ''dw-prob.csv'' props_real props_synthetic]
                  else []))))"

section \<open>Reference definitions for the properties\<close>

text \<open>
  The predictive-utility aggregate as the specification words it: each column has a
  pair of scores, the model trained on the real rows and the model trained on the
  synthetic rows, both scored on the holdout column; a column counts when both scores
  exist. The calls are made in the order of the column loop, so that a model or a
  scoring function with state of its own sees the same world.
\<close>

definition per_column ::
  "'c dataframe \<Rightarrow> 'c dataframe \<Rightarrow> 'c dataframe \<Rightarrow> ('c, 'clf, 'w) model \<Rightarrow> ('c, 'w) scorer \<Rightarrow>
     'c \<Rightarrow> 'w \<Rightarrow> (real \<times> real) option \<times> 'w" where
  "per_column train test synthetic Model score column w =
     (case (isolate_column train column, isolate_column synthetic column,
            isolate_column test column) of
        (Inr (X_real, y_real), Inr (X_synthetic, y_synthetic), Inr (X_test, y_test)) \<Rightarrow>
          (case get_prediction_score X_real y_real X_test y_test Model score w of
             (Inl _, w1) \<Rightarrow> (None, w1)
           | (Inr real_score, w1) \<Rightarrow>
               (case get_prediction_score X_synthetic y_synthetic X_test y_test Model score w1 of
                  (Inl _, w2) \<Rightarrow> (None, w2)
                | (Inr synthetic_score, w2) \<Rightarrow> (Some (real_score, synthetic_score), w2)))
      | _ \<Rightarrow> (None, w))"

fun outcomes ::
  "'c dataframe \<Rightarrow> 'c dataframe \<Rightarrow> 'c dataframe \<Rightarrow> ('c, 'clf, 'w) model \<Rightarrow> ('c, 'w) scorer \<Rightarrow>
     'c list \<Rightarrow> 'w \<Rightarrow> (real \<times> real) option list" where
  "outcomes train test synthetic Model score [] w = []"
| "outcomes train test synthetic Model score (column # rest) w =
     (case per_column train test synthetic Model score column w of
        (outcome, w') \<Rightarrow> outcome # outcomes train test synthetic Model score rest w')"

fun succeeded :: "'a option list \<Rightarrow> 'a list" where
  "succeeded [] = []"
| "succeeded (None # rest) = succeeded rest"
| "succeeded (Some x # rest) = x # succeeded rest"

text \<open>
  A deterministic model or scoring function: what a call returns or raises depends on
  its arguments only, not on the state of the world it runs in.
\<close>

definition deterministic_model :: "('c, 'clf, 'w) model \<Rightarrow> bool" where
  "deterministic_model Model \<longleftrightarrow>
     (\<forall>w w'. fst (init Model w) = fst (init Model w')) \<and>
     (\<forall>clf X y w w'. fst (fit Model clf X y w) = fst (fit Model clf X y w')) \<and>
     (\<forall>clf X w w'. fst (predict_proba Model clf X w) = fst (predict_proba Model clf X w'))"

definition deterministic_score :: "('c, 'w) scorer \<Rightarrow> bool" where
  "deterministic_score score \<longleftrightarrow>
     (\<forall>y_true y_pred w w'. fst (score y_true y_pred w) = fst (score y_true y_pred w'))"

text \<open>
  The marginal probability as the specification words it: the share of the rows that
  hold the second of the column's distinct values in ascending order, and 0 for a
  column with fewer than two distinct values.
\<close>

definition column_values :: "'c dataframe \<Rightarrow> 'c \<Rightarrow> vector" where
  "column_values df column = (case map_of df column of None \<Rightarrow> [] | Some v \<Rightarrow> v)"

definition marginal_probability :: "vector \<Rightarrow> real" where
  "marginal_probability a =
     (if card (set a) < 2 then 0
      else real (count_list a (sorted_list_of_set (set a) ! 1)) / real (length a))"

section \<open>Example inputs\<close>

text \<open>
  A small deterministic model: fitting refuses a label column with a single class (as
  logistic regression does) and otherwise remembers the mean label, which it predicts
  as the probability of class 1 for every row. The world counts the library calls.
  The score is the mean squared error; like \<open>roc_auc_score\<close> it refuses holdout
  labels with a single class.
\<close>

definition example_model :: "('c, real, nat) model" where
  "example_model =
     \<lparr>init = (\<lambda>w. (Inr 0, Suc w)),
      fit = (\<lambda>clf X y w.
               if length (remdups y) < 2 then (Inl (LibraryError ''ValueError''), Suc w)
               else (Inr (sum_list y / real (length y)), Suc w)),
      predict_proba = (\<lambda>clf X w.
               (Inr [replicate (case X of [] \<Rightarrow> 0 | c # _ \<Rightarrow> length c) (1 - clf),
                     replicate (case X of [] \<Rightarrow> 0 | c # _ \<Rightarrow> length c) clf], Suc w))\<rparr>"

definition example_score :: "('c, nat) scorer" where
  "example_score y_true y_pred w =
     (if length y_true \<noteq> length y_pred \<or> length (remdups y_true) < 2
      then (Inl (LibraryError ''ValueError''), Suc w)
      else (Inr (sum_list (map (\<lambda>p. (fst p - snd p)\<^sup>2) (zip y_true y_pred))
                   / real (length y_true)), Suc w))"

definition ex_train :: "string dataframe" where
  "ex_train = [(''A'', [0, 1, 0, 1]), (''B'', [1, 0, 1, 1])]"

definition ex_test :: "string dataframe" where
  "ex_test = [(''A'', [0, 1]), (''B'', [1, 0])]"

definition ex_synthetic :: "string dataframe" where
  "ex_synthetic = [(''B'', [1, 1, 1, 1]), (''A'', [0, 0, 0, 1])]"

definition ex_test_extra :: "string dataframe" where
  "ex_test_extra = [(''A'', [0, 1]), (''B'', [1, 0]), (''C'', [1, 1])]"

definition ex_test_missing :: "string dataframe" where
  "ex_test_missing = [(''A'', [0, 1]), (''C'', [1, 1])]"

definition ex_test_one_class :: "string dataframe" where
  "ex_test_one_class = [(''A'', [1, 1]), (''B'', [1, 0])]"

definition ex_no_rows :: "string dataframe" where
  "ex_no_rows = [(''A'', []), (''B'', [])]"

section \<open>Column isolation and the column loop\<close>

lemma isolate_column_absent:
  "column \<notin> set (columns df) \<Longrightarrow> isolate_column df column = Inl (KeyError column)"
  by (simp add: isolate_column_def drop_columns_def)

lemma isolate_column_present:
  assumes "column \<in> set (columns df)"
  shows "\<exists>y. map_of df column = Some y \<and>
           isolate_column df column =
             Inr (values_of (filter (\<lambda>p. fst p \<noteq> column) df), y)"
proof -
  from assms have "column \<in> fst ` set df"
    by (simp add: columns_def)
  then obtain y where "map_of df column = Some y"
    by (meson domD domI dom_map_of_conv_image_fst map_of_eq_None_iff not_Some_eq)
  with assms show ?thesis
    by (simp add: isolate_column_def drop_columns_def getitem_def)
qed

lemma column_loop_append:
  "column_loop train test synthetic Model score (xs @ ys) st =
     (case column_loop train test synthetic Model score xs st of
        (Some e, st') \<Rightarrow> (Some e, st')
      | (None, st') \<Rightarrow> column_loop train test synthetic Model score ys st')"
  by (induction xs arbitrary: st) (auto split: sum.splits prod.splits)

lemma try_column_lengths:
  "length (real_classifier_scores st) = length (synthetic_classifier_scores st) \<Longrightarrow>
   length (real_classifier_scores (try_column i Xr yr Xs ys Xt yt Model score st)) =
   length (synthetic_classifier_scores (try_column i Xr yr Xs ys Xt yt Model score st))"
  by (simp add: try_column_def split: prod.splits sum.splits)

lemma column_loop_lengths:
  "length (real_classifier_scores st) = length (synthetic_classifier_scores st) \<Longrightarrow>
   length (real_classifier_scores
             (snd (column_loop train test synthetic Model score cols st))) =
   length (synthetic_classifier_scores
             (snd (column_loop train test synthetic Model score cols st)))"
proof (induction cols arbitrary: st)
  case Nil
  then show ?case by simp
next
  case (Cons a cols)
  obtain i c where a: "a = (i, c)" by (cases a)
  show ?case using Cons.prems
    by (auto simp: a split: sum.splits intro!: Cons.IH try_column_lengths)
qed

lemma snd_enumerate: "snd ` set (enumerate n xs) = set xs"
  by (induction xs arbitrary: n) auto

lemma enumerate_append:
  "enumerate n (xs @ ys) = enumerate n xs @ enumerate (n + length xs) ys"
  by (induction xs arbitrary: n) auto

lemma column_loop_total:
  assumes "snd ` set ics \<subseteq> set (columns train) \<inter> set (columns synthetic) \<inter> set (columns test)"
  shows "fst (column_loop train test synthetic Model score ics st) = None"
  using assms
proof (induction ics arbitrary: st)
  case Nil
  then show ?case by simp
next
  case (Cons a ics)
  obtain i c where a: "a = (i, c)" by (cases a)
  from Cons.prems a
  have c: "c \<in> set (columns train)" "c \<in> set (columns synthetic)" "c \<in> set (columns test)"
    by auto
  from isolate_column_present [OF c(1)] isolate_column_present [OF c(2)]
    isolate_column_present [OF c(3)]
  obtain Xr yr Xs ys Xt yt where
    "isolate_column train c = Inr (Xr, yr)" "isolate_column synthetic c = Inr (Xs, ys)"
    "isolate_column test c = Inr (Xt, yt)"
    by blast
  moreover from Cons.prems
  have "snd ` set ics \<subseteq> set (columns train) \<inter> set (columns synthetic) \<inter> set (columns test)"
    by auto
  ultimately show ?case
    by (simp add: a Cons.IH)
qed


section \<open>\<open>get_prediction_score\<close>: the guard, the fallback, the score\<close>

lemma np_unique_empty_iff: "np_unique y = [] \<longleftrightarrow> y = []"
proof -
  have "length (np_unique y) = length (remdups y)"
    by (simp add: np_unique_def)
  then show ?thesis
    by (metis length_0_conv remdups_eq_nil_iff)
qed

lemma column_1_raises_iff: "(\<exists>e. column_1 a = Inl e) \<longleftrightarrow> length a < 2"
  by (cases a rule: list.exhaust [case_product list.exhaust])
     (auto simp: column_1_def split: list.splits)

lemma fit_predict_raises_iff:
  "(\<exists>e. fit_predict Model clf X_train y_train X_test w = (Inl e, w2)) \<longleftrightarrow>
     (\<exists>e. fit Model clf X_train y_train w = (Inl e, w2)) \<or>
     (\<exists>clf' w1. fit Model clf X_train y_train w = (Inr clf', w1) \<and>
        ((\<exists>e. predict_proba Model clf' X_test w1 = (Inl e, w2)) \<or>
         (\<exists>proba. predict_proba Model clf' X_test w1 = (Inr proba, w2) \<and> length proba < 2)))"
proof -
  obtain a w1 where a: "fit Model clf X_train y_train w = (a, w1)"
    by (cases "fit Model clf X_train y_train w")
  show ?thesis
  proof (cases a)
    case (Inl e)
    with a show ?thesis
      by (simp add: fit_predict_def)
  next
    case (Inr clf')
    obtain b w2' where b: "predict_proba Model clf' X_test w1 = (b, w2')"
      by (cases "predict_proba Model clf' X_test w1")
    show ?thesis
    proof (cases b)
      case (Inl e)
      with a Inr b show ?thesis
        by (simp add: fit_predict_def)
    next
      case proba: (Inr proba)
      with a Inr b column_1_raises_iff [of proba] show ?thesis
        by (auto simp: fit_predict_def)
    qed
  qed
qed


lemma get_prediction_score_is_score:
  assumes "get_prediction_score X_train y_train X_test y_test Model score w = (Inr v, w')"
  shows "\<exists>prediction w0. score y_test prediction w0 = (Inr v, w')"
  using assms
  by (auto simp: get_prediction_score_def split: if_splits prod.splits sum.splits)

section \<open>The column loop computes the per-column outcomes\<close>

lemma try_column_per_column:
  assumes "isolate_column train c = Inr (Xr, yr)"
    and "isolate_column synthetic c = Inr (Xs, ys)"
    and "isolate_column test c = Inr (Xt, yt)"
    and "per_column train test synthetic Model score c (world st) = (outcome, w')"
  shows "real_classifier_scores (try_column i Xr yr Xs ys Xt yt Model score st) =
           real_classifier_scores st @ map fst (succeeded [outcome])"
    and "synthetic_classifier_scores (try_column i Xr yr Xs ys Xt yt Model score st) =
           synthetic_classifier_scores st @ map snd (succeeded [outcome])"
    and "world (try_column i Xr yr Xs ys Xt yt Model score st) = w'"
  using assms by (auto simp: try_column_def per_column_def split: prod.splits sum.splits)

lemma column_loop_outcomes:
  assumes "set cols \<subseteq> set (columns train) \<inter> set (columns synthetic) \<inter> set (columns test)"
  shows "\<exists>st'. column_loop train test synthetic Model score (enumerate n cols) st = (None, st') \<and>
           real_classifier_scores st' = real_classifier_scores st @
             map fst (succeeded (outcomes train test synthetic Model score cols (world st))) \<and>
           synthetic_classifier_scores st' = synthetic_classifier_scores st @
             map snd (succeeded (outcomes train test synthetic Model score cols (world st)))"
  using assms
proof (induction cols arbitrary: n st)
  case Nil
  then show ?case by simp
next
  case (Cons c cols)
  from Cons.prems
  have c: "c \<in> set (columns train)" "c \<in> set (columns synthetic)" "c \<in> set (columns test)"
    by auto
  from isolate_column_present [OF c(1)] isolate_column_present [OF c(2)]
    isolate_column_present [OF c(3)]
  obtain Xr yr Xs ys Xt yt where iso:
    "isolate_column train c = Inr (Xr, yr)" "isolate_column synthetic c = Inr (Xs, ys)"
    "isolate_column test c = Inr (Xt, yt)"
    by blast
  obtain outcome w' where
    pc: "per_column train test synthetic Model score c (world st) = (outcome, w')"
    by (cases "per_column train test synthetic Model score c (world st)")
  let ?st1 = "try_column n Xr yr Xs ys Xt yt Model score st"
  note step = try_column_per_column [OF iso pc, of n]
  from Cons.prems
  have "set cols \<subseteq> set (columns train) \<inter> set (columns synthetic) \<inter> set (columns test)"
    by auto
  from Cons.IH [OF this, of "Suc n" ?st1] obtain st' where
    st': "column_loop train test synthetic Model score (enumerate (Suc n) cols) ?st1 = (None, st')"
      "real_classifier_scores st' = real_classifier_scores ?st1 @
         map fst (succeeded (outcomes train test synthetic Model score cols (world ?st1)))"
      "synthetic_classifier_scores st' = synthetic_classifier_scores ?st1 @
         map snd (succeeded (outcomes train test synthetic Model score cols (world ?st1)))"
    by blast
  have succ: "succeeded (outcome # outcomes train test synthetic Model score cols w') =
      succeeded [outcome] @ succeeded (outcomes train test synthetic Model score cols w')"
    by (cases outcome) simp_all
  have loop: "column_loop train test synthetic Model score (enumerate n (c # cols)) st =
      column_loop train test synthetic Model score (enumerate (Suc n) cols) ?st1"
    using iso by simp
  have outs: "outcomes train test synthetic Model score (c # cols) (world st) =
      outcome # outcomes train test synthetic Model score cols w'"
    using pc by simp
  have "real_classifier_scores st' = real_classifier_scores st @
      map fst (succeeded (outcomes train test synthetic Model score (c # cols) (world st)))"
    unfolding outs succ st'(2) step by simp
  moreover have "synthetic_classifier_scores st' = synthetic_classifier_scores st @
      map snd (succeeded (outcomes train test synthetic Model score (c # cols) (world st)))"
    unfolding outs succ st'(3) step by simp
  ultimately show ?case
    unfolding loop using st'(1) by blast
qed

lemma squared_differences_pairs:
  "squared_differences (map fst ps) (map snd ps) = (\<Sum>(r, s)\<leftarrow>ps. (r - s)\<^sup>2)"
  by (simp add: squared_differences_def zip_map_fst_snd split_def)

lemma fpe_value:
  assumes "set (columns train) = set (columns synthetic)"
    and "set (columns train) \<subseteq> set (columns test)"
  shows "fst (feature_prediction_evaluation train test synthetic Model score p plot w) =
           Inr (\<Sum>(r, s)\<leftarrow>succeeded
                   (outcomes train test synthetic Model score (columns train) w).
                  (r - s)\<^sup>2)"
proof -
  have "set (columns train) \<subseteq>
          set (columns train) \<inter> set (columns synthetic) \<inter> set (columns test)"
    using assms by auto
  from column_loop_outcomes [OF this, of Model score 0 "empty_env w"]
  obtain st' where
    "column_loop train test synthetic Model score (enumerate 0 (columns train)) (empty_env w) =
       (None, st')"
    "real_classifier_scores st' =
       map fst (succeeded (outcomes train test synthetic Model score (columns train) w))"
    "synthetic_classifier_scores st' =
       map snd (succeeded (outcomes train test synthetic Model score (columns train) w))"
    by (auto simp: empty_env_def)
  then show ?thesis
    using assms(1)
    by (simp add: feature_prediction_evaluation_def Let_def squared_differences_pairs)
qed

section \<open>Deterministic models and scoring functions\<close>

lemma fit_predict_deterministic:
  assumes "deterministic_model Model"
  shows "fst (fit_predict Model clf X_train y_train X_test w) =
         fst (fit_predict Model clf X_train y_train X_test w')"
proof -
  obtain a w1 where a: "fit Model clf X_train y_train w = (a, w1)"
    by (cases "fit Model clf X_train y_train w")
  obtain a' w1' where a': "fit Model clf X_train y_train w' = (a', w1')"
    by (cases "fit Model clf X_train y_train w'")
  from assms have "fst (fit Model clf X_train y_train w) = fst (fit Model clf X_train y_train w')"
    unfolding deterministic_model_def by blast
  with a a' have eq: "a' = a" by simp
  show ?thesis
  proof (cases a)
    case (Inl e)
    with a a' eq show ?thesis by (simp add: fit_predict_def)
  next
    case (Inr clf')
    obtain b w2 where b: "predict_proba Model clf' X_test w1 = (b, w2)"
      by (cases "predict_proba Model clf' X_test w1")
    obtain b' w2' where b': "predict_proba Model clf' X_test w1' = (b', w2')"
      by (cases "predict_proba Model clf' X_test w1'")
    from assms have "fst (predict_proba Model clf' X_test w1) = fst (predict_proba Model clf' X_test w1')"
      unfolding deterministic_model_def by blast
    with b b' have "b' = b" by simp
    with a a' eq Inr b b' show ?thesis
      by (simp add: fit_predict_def split: sum.splits)
  qed
qed

lemma get_prediction_score_deterministic:
  assumes "deterministic_model Model" and "deterministic_score score"
  shows "fst (get_prediction_score X_train y_train X_test y_test Model score w) =
         fst (get_prediction_score X_train y_train X_test y_test Model score w')"
proof (cases "length (np_unique y_train) = 0 \<or> length (np_unique y_test) = 0")
  case True
  then show ?thesis by (simp add: get_prediction_score_def)
next
  case False
  obtain a w1 where a: "init Model w = (a, w1)"
    by (cases "init Model w")
  obtain a' w1' where a': "init Model w' = (a', w1')"
    by (cases "init Model w'")
  from assms(1) have "fst (init Model w) = fst (init Model w')"
    unfolding deterministic_model_def by blast
  with a a' have eq: "a' = a" by simp
  show ?thesis
  proof (cases a)
    case (Inl e)
    with False a a' eq show ?thesis by (simp add: get_prediction_score_def)
  next
    case (Inr clf)
    obtain b w2 where b: "fit_predict Model clf X_train y_train X_test w1 = (b, w2)"
      by (cases "fit_predict Model clf X_train y_train X_test w1")
    obtain b' w2' where b': "fit_predict Model clf X_train y_train X_test w1' = (b', w2')"
      by (cases "fit_predict Model clf X_train y_train X_test w1'")
    from fit_predict_deterministic [OF assms(1), of clf X_train y_train X_test w1 w1'] b b'
    have eqb: "b' = b" by simp
    have sc: "fst (score y_test q w2) = fst (score y_test q w2')" for q
      using assms(2) unfolding deterministic_score_def by blast
    from False a a' eq Inr b b' eqb sc show ?thesis
      by (simp add: get_prediction_score_def split: sum.splits)
  qed
qed

lemma per_column_deterministic:
  assumes "deterministic_model Model" and "deterministic_score score"
  shows "fst (per_column train test synthetic Model score c w) =
         fst (per_column train test synthetic Model score c w')"
proof (cases "\<exists>Xr yr Xs ys Xt yt. isolate_column train c = Inr (Xr, yr) \<and>
         isolate_column synthetic c = Inr (Xs, ys) \<and> isolate_column test c = Inr (Xt, yt)")
  case False
  then show ?thesis
    by (auto simp: per_column_def split: sum.splits prod.splits)
next
  case True
  then obtain Xr yr Xs ys Xt yt where iso: "isolate_column train c = Inr (Xr, yr)"
         "isolate_column synthetic c = Inr (Xs, ys)" "isolate_column test c = Inr (Xt, yt)"
    by blast
  let ?g = "\<lambda>X y w. get_prediction_score X y Xt yt Model score w"
  obtain a w1 where a: "?g Xr yr w = (a, w1)" by (cases "?g Xr yr w")
  obtain a' w1' where a': "?g Xr yr w' = (a', w1')" by (cases "?g Xr yr w'")
  obtain b w2 where b: "?g Xs ys w1 = (b, w2)" by (cases "?g Xs ys w1")
  obtain b' w2' where b': "?g Xs ys w1' = (b', w2')" by (cases "?g Xs ys w1'")
  from get_prediction_score_deterministic [OF assms, of Xr yr Xt yt w w'] a a'
  have "a' = a" by simp
  moreover from get_prediction_score_deterministic [OF assms, of Xs ys Xt yt w1 w1'] b b'
  have "b' = b" by simp
  ultimately show ?thesis
    using iso a a' b b' by (simp add: per_column_def split: sum.splits)
qed

lemma outcomes_deterministic:
  assumes "deterministic_model Model" and "deterministic_score score"
  shows "outcomes train test synthetic Model score cols w =
         map (\<lambda>c. fst (per_column train test synthetic Model score c w0)) cols"
proof (induction cols arbitrary: w)
  case Nil
  then show ?case by simp
next
  case (Cons c cols)
  obtain outcome w' where pc: "per_column train test synthetic Model score c w = (outcome, w')"
    by (cases "per_column train test synthetic Model score c w")
  with per_column_deterministic [OF assms, of train test synthetic c w w0]
  have "fst (per_column train test synthetic Model score c w0) = outcome"
    by simp
  with pc Cons.IH [of w'] show ?case by simp
qed

lemma per_column_identical:
  assumes "deterministic_model Model" and "deterministic_score score"
  shows "fst (per_column train test train Model score c w) = None \<or>
         (\<exists>r. fst (per_column train test train Model score c w) = Some (r, r))"
proof (cases "\<exists>Xr yr Xt yt. isolate_column train c = Inr (Xr, yr) \<and> isolate_column test c = Inr (Xt, yt)")
  case False
  then show ?thesis
    by (auto simp: per_column_def split: sum.splits prod.splits)
next
  case True
  then obtain Xr yr Xt yt where iso: "isolate_column train c = Inr (Xr, yr)"
         "isolate_column test c = Inr (Xt, yt)"
    by blast
  let ?g = "\<lambda>w. get_prediction_score Xr yr Xt yt Model score w"
  obtain a w1 where a: "?g w = (a, w1)" by (cases "?g w")
  obtain b w2 where b: "?g w1 = (b, w2)" by (cases "?g w1")
  from get_prediction_score_deterministic [OF assms, of Xr yr Xt yt w w1] a b
  have "b = a" by simp
  with iso a b show ?thesis
    by (cases a) (simp_all add: per_column_def)
qed

lemma per_column_swap:
  assumes "deterministic_model Model" and "deterministic_score score"
  shows "fst (per_column synthetic test train Model score c w) =
         map_option (\<lambda>(r, s). (s, r)) (fst (per_column train test synthetic Model score c w'))"
proof (cases "\<exists>Xr yr Xs ys Xt yt. isolate_column train c = Inr (Xr, yr) \<and>
         isolate_column synthetic c = Inr (Xs, ys) \<and> isolate_column test c = Inr (Xt, yt)")
  case False
  then show ?thesis
    by (auto simp: per_column_def split: sum.splits prod.splits)
next
  case True
  then obtain Xr yr Xs ys Xt yt where iso: "isolate_column train c = Inr (Xr, yr)"
         "isolate_column synthetic c = Inr (Xs, ys)" "isolate_column test c = Inr (Xt, yt)"
    by blast
  let ?g = "\<lambda>X y w. get_prediction_score X y Xt yt Model score w"
  obtain a w1 where a: "?g Xr yr w' = (a, w1)" by (cases "?g Xr yr w'")
  obtain b w2 where b: "?g Xs ys w1 = (b, w2)" by (cases "?g Xs ys w1")
  obtain b' w1' where b': "?g Xs ys w = (b', w1')" by (cases "?g Xs ys w")
  obtain a' w2' where a': "?g Xr yr w1' = (a', w2')" by (cases "?g Xr yr w1'")
  from get_prediction_score_deterministic [OF assms, of Xr yr Xt yt w' w1'] a a'
  have "a' = a" by simp
  moreover from get_prediction_score_deterministic [OF assms, of Xs ys Xt yt w1 w] b b'
  have "b' = b" by simp
  ultimately show ?thesis
    using iso a a' b b' by (simp add: per_column_def split: sum.splits)
qed

section \<open>The marginal probability of a column\<close>

lemma np_unique_sorted_distinct:
  "sorted (np_unique a)" "distinct (np_unique a)" "set (np_unique a) = set a"
  by (simp_all add: np_unique_def)

lemma np_unique_sorted_list_of_set: "np_unique a = sorted_list_of_set (set a)"
  by (simp add: np_unique_def sorted_list_of_set_sort_remdups)

lemma length_np_unique: "length (np_unique a) = card (set a)"
  by (simp add: np_unique_def length_remdups_card_conv)

lemma index_1_count_unique:
  "index_1_count (np_unique_counts a) =
     (if card (set a) < 2 then 0 else count_list a (sorted_list_of_set (set a) ! 1))"
proof (cases "card (set a) < 2")
  case True
  then show ?thesis
    by (simp add: index_1_count_def np_unique_counts_def length_np_unique)
next
  case False
  then have "1 < length (np_unique a)"
    by (simp add: length_np_unique)
  then show ?thesis
    using False
    by (simp add: index_1_count_def np_unique_counts_def length_np_unique
          np_unique_sorted_list_of_set [symmetric])
qed

lemma py_div_marginal_probability:
  assumes "a \<noteq> []"
  shows "py_div (index_1_count (np_unique_counts a)) (length a) = Inr (marginal_probability a)"
  using assms by (simp add: py_div_def index_1_count_unique marginal_probability_def)

lemma getitem_column_values:
  "column \<in> set (columns df) \<Longrightarrow> getitem df column = Inr (column_values df column)"
  using isolate_column_present [of column df]
  by (auto simp: getitem_def column_values_def)

lemma props_loop_value:
  assumes "set cols \<subseteq> set (columns real_df) \<inter> set (columns synthetic)"
    and "\<forall>c \<in> set cols. column_values real_df c \<noteq> [] \<and> column_values synthetic c \<noteq> []"
  shows "props_loop real_df synthetic cols props =
           Inr (props @ map (\<lambda>c. (c, marginal_probability (column_values real_df c),
                                    marginal_probability (column_values synthetic c))) cols)"
  using assms
proof (induction cols arbitrary: props)
  case Nil
  then show ?case by simp
next
  case (Cons c cols)
  from Cons.prems have "c \<in> set (columns real_df)" "c \<in> set (columns synthetic)"
    "column_values real_df c \<noteq> []" "column_values synthetic c \<noteq> []"
    by auto
  then have "props_loop real_df synthetic (c # cols) props =
      props_loop real_df synthetic cols
        (props @ [(c, marginal_probability (column_values real_df c),
                      marginal_probability (column_values synthetic c))])"
    by (simp add: getitem_column_values py_div_marginal_probability)
  also have "\<dots> = Inr ((props @ [(c, marginal_probability (column_values real_df c),
                      marginal_probability (column_values synthetic c))]) @
       map (\<lambda>c. (c, marginal_probability (column_values real_df c),
                     marginal_probability (column_values synthetic c))) cols)"
    using Cons.prems by (intro Cons.IH) auto
  finally show ?case by simp
qed

lemma no_rows_division_by_zero:
  assumes "set (columns real_df) = set (columns synthetic)"
    and "columns real_df = c # cs" and "column_values real_df c = []"
  shows "feature_probabilities_evaluation real_df synthetic plot = (Inl ZeroDivisionError, [])"
proof -
  from assms(1,2) have "c \<in> set (columns real_df)" "c \<in> set (columns synthetic)"
    by auto
  then have "getitem real_df c = Inr []" "getitem synthetic c = Inr (column_values synthetic c)"
    using assms(3) by (simp_all add: getitem_column_values)
  then have "props_loop real_df synthetic (c # cs) [] = Inl ZeroDivisionError"
    by (simp add: py_div_def)
  then show ?thesis
    using assms(1,2) by (simp add: feature_probabilities_evaluation_def)
qed

lemmas example_defs =
  feature_prediction_evaluation_def columns_def isolate_column_def drop_columns_def getitem_def
  values_of_def try_column_def get_prediction_score_def np_unique_def fit_predict_def
  column_1_def first_label_def np_full_def squared_differences_def empty_env_def
  example_model_def example_score_def per_column_def power2_eq_square insert_commute

lemma sum_squares_equal_pairs:
  "\<forall>q \<in> set ps. fst q = snd q \<Longrightarrow> (\<Sum>(r, s)\<leftarrow>ps. (r - s)\<^sup>2) = (0::real)"
  by (induction ps) auto

lemma set_succeeded: "set (succeeded os) = {x. Some x \<in> set os}"
  by (induction os rule: succeeded.induct) auto

lemma example_model_deterministic:
  "deterministic_model (example_model :: ('c, real, nat) model)"
  by (simp add: deterministic_model_def example_model_def)

lemma example_score_deterministic:
  "deterministic_score (example_score :: ('c, nat) scorer)"
  by (simp add: deterministic_score_def example_score_def)

lemma ex_columns:
  "columns ex_train = [''A'', ''B'']" "columns ex_test = [''A'', ''B'']"
  "columns ex_synthetic = [''B'', ''A'']" "columns ex_test_extra = [''A'', ''B'', ''C'']"
  "columns ex_test_missing = [''A'', ''C'']" "columns ex_test_one_class = [''A'', ''B'']"
  "columns ex_no_rows = [''A'', ''B'']"
  by (simp_all add: columns_def ex_train_def ex_test_def ex_synthetic_def ex_test_extra_def
        ex_test_missing_def ex_test_one_class_def ex_no_rows_def)

section \<open>The properties\<close>

text \<open>
  C1, as amended. The check at the head of both functions compares two tables: the real
  training table (for the marginal probabilities, the real table) and the synthetic one.
  When their column sets differ the call raises at once: no column has been isolated,
  nothing has been printed and the world of the model is untouched.
\<close>

theorem schema_mismatch_raises_first:
  "(set (columns train) \<noteq> set (columns synthetic) \<longrightarrow>
      feature_prediction_evaluation train test synthetic Model score p plot w =
        (Inl ColumnsNotIdentical, empty_env w))
   \<and> (set (columns real_df) \<noteq> set (columns synthetic') \<longrightarrow>
      feature_probabilities_evaluation real_df synthetic' plot' =
        (Inl ColumnsNotIdentical, []))"
  by (simp add: feature_prediction_evaluation_def feature_probabilities_evaluation_def)

theorem schema_mismatch_raises_first_witness:
  "set (columns ex_train) \<noteq> set (columns ex_test_extra)
   \<and> feature_prediction_evaluation ex_train ex_test ex_test_extra
        (example_model :: (string, real, nat) model) example_score 0.8 True 0 =
        (Inl ColumnsNotIdentical, empty_env 0)
   \<and> feature_probabilities_evaluation ex_train ex_test_extra True =
        (Inl ColumnsNotIdentical, [])"
proof -
  have "''C'' \<in> set (columns ex_test_extra)" "''C'' \<notin> set (columns ex_train)"
    by (simp_all add: ex_columns)
  then have ne: "set (columns ex_train) \<noteq> set (columns ex_test_extra)"
    by blast
  with schema_mismatch_raises_first
         [of ex_train ex_test_extra ex_test example_model example_score "0.8" True 0
             ex_train ex_test_extra True]
  show ?thesis by simp
qed

text \<open>
  C1 as stated fails for the holdout table. With a holdout table that has a column more
  than the training table, the call raises nothing and returns an aggregate; with a
  holdout table that lacks column \<open>B\<close>, column \<open>A\<close> is evaluated first (eight library
  calls, one line printed) and only then \<open>KeyError\<close> is raised.
\<close>

theorem schema_mismatch_holdout_counterexample:
  "set (columns ex_train) \<noteq> set (columns ex_test_extra)
   \<and> fst (feature_prediction_evaluation ex_train ex_test_extra ex_synthetic
           (example_model :: (string, real, nat) model) example_score 0.8 False 0) =
       Inr (5 / 128)
   \<and> set (columns ex_train) \<noteq> set (columns ex_test_missing)
   \<and> feature_prediction_evaluation ex_train ex_test_missing ex_synthetic
        (example_model :: (string, real, nat) model) example_score 0.8 False 0 =
       (Inl (KeyError ''B''),
        \<lparr>real_classifier_scores = [1 / 4], synthetic_classifier_scores = [5 / 16],
           stdout = [PrintScores 0 (1 / 4) (5 / 16)], world = 8\<rparr>)"
proof (intro conjI)
  have "''C'' \<in> set (columns ex_test_extra)" "''C'' \<notin> set (columns ex_train)"
    by (simp_all add: ex_columns)
  then show "set (columns ex_train) \<noteq> set (columns ex_test_extra)"
    by blast
  have "''C'' \<in> set (columns ex_test_missing)" "''C'' \<notin> set (columns ex_train)"
    by (simp_all add: ex_columns)
  then show "set (columns ex_train) \<noteq> set (columns ex_test_missing)"
    by blast
  show "fst (feature_prediction_evaluation ex_train ex_test_extra ex_synthetic
           (example_model :: (string, real, nat) model) example_score 0.8 False 0) =
       Inr (5 / 128)"
    by (simp add: example_defs ex_train_def ex_synthetic_def ex_test_extra_def)
  show "feature_prediction_evaluation ex_train ex_test_missing ex_synthetic
        (example_model :: (string, real, nat) model) example_score 0.8 False 0 =
       (Inl (KeyError ''B''),
        \<lparr>real_classifier_scores = [1 / 4], synthetic_classifier_scores = [5 / 16],
           stdout = [PrintScores 0 (1 / 4) (5 / 16)], world = 8\<rparr>)"
    by (simp add: example_defs ex_train_def ex_synthetic_def ex_test_missing_def)
qed



text \<open>
  C3. On tables whose column sets pass the check and whose holdout table has every
  column of the training table, the value returned is the sum of the squared
  differences of the two scores over exactly the columns for which both scores were
  computed. Each of the two scores of such a column is a value of the scoring function
  applied to the holdout labels of that column.
\<close>

theorem aggregate_is_sum_over_succeeded_columns:
  "(set (columns train) = set (columns synthetic) \<longrightarrow>
    set (columns train) \<subseteq> set (columns test) \<longrightarrow>
      fst (feature_prediction_evaluation train test synthetic Model score p plot w) =
        Inr (\<Sum>(r, s)\<leftarrow>succeeded
                (outcomes train test synthetic Model score (columns train) w).
               (r - s)\<^sup>2))
   \<and> (per_column train test synthetic Model score column w0 =
         (Some (real_score, synthetic_score), w1) \<longrightarrow>
      (\<exists>prediction_real prediction_synthetic wa wb.
         fst (score (column_values test column) prediction_real wa) = Inr real_score \<and>
         fst (score (column_values test column) prediction_synthetic wb) =
           Inr synthetic_score))"
proof (intro conjI impI)
  assume "set (columns train) = set (columns synthetic)"
    "set (columns train) \<subseteq> set (columns test)"
  then show "fst (feature_prediction_evaluation train test synthetic Model score p plot w) =
        Inr (\<Sum>(r, s)\<leftarrow>succeeded
                (outcomes train test synthetic Model score (columns train) w).
               (r - s)\<^sup>2)"
    by (rule fpe_value)
next
  assume pc: "per_column train test synthetic Model score column w0 =
         (Some (real_score, synthetic_score), w1)"
  then obtain Xr yr Xs ys Xt yt where iso: "isolate_column train column = Inr (Xr, yr)"
    "isolate_column synthetic column = Inr (Xs, ys)" "isolate_column test column = Inr (Xt, yt)"
    by (auto simp: per_column_def split: sum.splits prod.splits)
  from iso(3) have yt: "column_values test column = yt"
    by (auto simp: isolate_column_def getitem_def column_values_def
          split: sum.splits option.splits)
  from pc iso obtain wr ws where
    "get_prediction_score Xr yr Xt yt Model score w0 = (Inr real_score, wr)"
    "get_prediction_score Xs ys Xt yt Model score wr = (Inr synthetic_score, ws)"
    by (auto simp: per_column_def split: sum.splits prod.splits)
  from get_prediction_score_is_score [OF this(1)] get_prediction_score_is_score [OF this(2)]
  obtain q1 wa q2 wb where "score yt q1 wa = (Inr real_score, wr)"
    "score yt q2 wb = (Inr synthetic_score, ws)"
    by blast
  then have "fst (score yt q1 wa) = Inr real_score \<and> fst (score yt q2 wb) = Inr synthetic_score"
    by simp
  then show "\<exists>prediction_real prediction_synthetic wa wb.
         fst (score (column_values test column) prediction_real wa) = Inr real_score \<and>
         fst (score (column_values test column) prediction_synthetic wb) =
           Inr synthetic_score"
    unfolding yt by blast
qed

text \<open>
  The witness: the holdout column \<open>A\<close> holds one class and fails, so the aggregate is
  the contribution of column \<open>B\<close> alone, \<open>(5/16 - 1/2)\<^sup>2\<close>.
\<close>

theorem aggregate_is_sum_over_succeeded_columns_witness:
  "set (columns ex_train) = set (columns ex_synthetic)
   \<and> set (columns ex_train) \<subseteq> set (columns ex_test_one_class)
   \<and> outcomes ex_train ex_test_one_class ex_synthetic
        (example_model :: (string, real, nat) model) example_score (columns ex_train) 0 =
       [None, Some (5 / 16, 1 / 2)]
   \<and> fst (feature_prediction_evaluation ex_train ex_test_one_class ex_synthetic
           (example_model :: (string, real, nat) model) example_score 0.8 False 0) =
       Inr (9 / 256)
   \<and> per_column ex_train ex_test_one_class ex_synthetic
        (example_model :: (string, real, nat) model) example_score ''B'' 4 =
       (Some (5 / 16, 1 / 2), 11)
   \<and> (\<exists>prediction_real prediction_synthetic wa wb.
         fst ((example_score :: (string, nat) scorer)
                (column_values ex_test_one_class ''B'') prediction_real wa) = Inr (5 / 16) \<and>
         fst ((example_score :: (string, nat) scorer)
                (column_values ex_test_one_class ''B'') prediction_synthetic wb) = Inr (1 / 2))"
proof -
  have h1: "set (columns ex_train) = set (columns ex_synthetic)"
    by (auto simp: ex_columns)
  have h2: "set (columns ex_train) \<subseteq> set (columns ex_test_one_class)"
    by (simp add: ex_columns)
  have h3: "outcomes ex_train ex_test_one_class ex_synthetic
        (example_model :: (string, real, nat) model) example_score (columns ex_train) 0 =
       [None, Some (5 / 16, 1 / 2)]"
    by (simp add: ex_columns) (simp add: example_defs ex_train_def ex_synthetic_def
          ex_test_one_class_def)
  have h4: "per_column ex_train ex_test_one_class ex_synthetic
        (example_model :: (string, real, nat) model) example_score ''B'' 4 =
       (Some (5 / 16, 1 / 2), 11)"
    by (simp add: example_defs ex_train_def ex_synthetic_def ex_test_one_class_def)
  from aggregate_is_sum_over_succeeded_columns
         [of ex_train ex_synthetic ex_test_one_class example_model example_score
             "0.8" False 0 "''B''" 4 "5 / 16" "1 / 2" 11]
    h1 h2 h3 h4
  show ?thesis
    by (simp add: power2_eq_square)
qed

text \<open>
  C4. Once the label guard has passed and the classifier has been constructed, an
  exception from the \<open>try\<close> body (from \<open>fit\<close>, from \<open>predict_proba\<close> or from taking
  column 1 of its result) does not leave \<open>get_prediction_score\<close>: the function returns
  what the scoring function returns on the holdout labels and the vector that repeats
  the first training label once per holdout label.
\<close>

theorem fit_failure_falls_back:
  assumes "y_train = v # rest" and "y_test \<noteq> []"
    and "init Model w = (Inr clf, w1)"
    and "fit_predict Model clf X_train y_train X_test w1 = (Inl e, w2)"
  shows "get_prediction_score X_train y_train X_test y_test Model score w =
           score y_test (replicate (length y_test) v) w2"
  using assms
  by (simp add: get_prediction_score_def np_unique_empty_iff first_label_def np_full_def)

text \<open>
  The witness: the training labels are all 1, the example model refuses to fit them, and
  the score is taken on the constant prediction \<open>[1, 1]\<close>.
\<close>

theorem fit_failure_falls_back_witness:
  "[1, 1, 1, 1] = (1::real) # [1, 1, 1] \<and> [1, 0] \<noteq> ([]::real list)
   \<and> init (example_model :: (string, real, nat) model) 0 = (Inr 0, 1)
   \<and> fit_predict (example_model :: (string, real, nat) model) 0
        [[0, 0, 0, 1]] [1, 1, 1, 1] [[0, 1]] 1 = (Inl (LibraryError ''ValueError''), 2)
   \<and> get_prediction_score [[0, 0, 0, 1]] [1, 1, 1, 1] [[0, 1]] [1, 0] example_model
        (example_score :: (string, nat) scorer) 0 =
      example_score [1, 0] (replicate (length [1, 0 :: real]) 1) 2
   \<and> example_score [1, 0] (replicate (length [1, 0 :: real]) 1) 2 =
      (Inr (1 / 2) :: string exn + real, 3)"
proof -
  have h1: "[1, 1, 1, 1] = (1::real) # [1, 1, 1]"
    by simp
  have h2: "[1, 0] \<noteq> ([]::real list)"
    by simp
  have h3: "init (example_model :: (string, real, nat) model) 0 = (Inr 0, 1)"
    by (simp add: example_model_def)
  have h4: "fit_predict (example_model :: (string, real, nat) model) 0
        [[0, 0, 0, 1]] [1, 1, 1, 1] [[0, 1]] 1 = (Inl (LibraryError ''ValueError''), 2)"
    by (simp add: example_model_def fit_predict_def)
  have h5: "example_score [1, 0] (replicate (length [1, 0 :: real]) 1) 2 =
      (Inr (1 / 2) :: string exn + real, 3)"
    by (simp add: example_score_def)
  show ?thesis
    using fit_failure_falls_back [OF h1 h2 h3 h4, where score = example_score] h1 h2 h3 h4 h5
    by simp
qed

text \<open>
  C5, as amended. With a deterministic model and a deterministic scoring function whose
  scores are finite numbers, and a holdout table that has every column of the training
  table, passing the real training table as the synthetic table as well gives the
  aggregate 0, and every column either fails or gets the same score twice.
\<close>

theorem identical_tables_score_zero:
  assumes "deterministic_model Model" and "deterministic_score score"
    and "set (columns train) \<subseteq> set (columns test)"
  shows "fst (feature_prediction_evaluation train test train Model score p plot w) = Inr 0
    \<and> (\<forall>outcome \<in> set (outcomes train test train Model score (columns train) w).
          outcome = None \<or> (\<exists>r. outcome = Some (r, r)))"
proof -
  let ?os = "outcomes train test train Model score (columns train) w"
  have os: "?os = map (\<lambda>c. fst (per_column train test train Model score c w)) (columns train)"
    using assms(1,2) by (rule outcomes_deterministic)
  have same: "outcome = None \<or> (\<exists>r. outcome = Some (r, r))" if "outcome \<in> set ?os" for outcome
  proof -
    from that os obtain c where "outcome = fst (per_column train test train Model score c w)"
      by auto
    with per_column_identical [OF assms(1,2), of train test c w] show ?thesis
      by simp
  qed
  then have "\<forall>q \<in> set (succeeded ?os). fst q = snd q"
    by (fastforce simp: set_succeeded)
  then have "(\<Sum>(r, s)\<leftarrow>succeeded ?os. (r - s)\<^sup>2) = 0"
    by (rule sum_squares_equal_pairs)
  with fpe_value [OF refl assms(3), of Model score p plot w] same show ?thesis
    by simp
qed

text \<open>The witness is the end-to-end example of the specification.\<close>

theorem identical_tables_score_zero_witness:
  "deterministic_model (example_model :: (string, real, nat) model)
   \<and> deterministic_score (example_score :: (string, nat) scorer)
   \<and> set (columns ex_train) \<subseteq> set (columns ex_test)
   \<and> fst (feature_prediction_evaluation ex_train ex_test ex_train
           (example_model :: (string, real, nat) model) example_score 0.8 True 0) = Inr 0
   \<and> outcomes ex_train ex_test ex_train
        (example_model :: (string, real, nat) model) example_score (columns ex_train) 0 =
       [Some (1 / 4, 1 / 4), Some (5 / 16, 5 / 16)]"
proof -
  have h: "set (columns ex_train) \<subseteq> set (columns ex_test)"
    by (simp add: ex_columns)
  have os: "outcomes ex_train ex_test ex_train
        (example_model :: (string, real, nat) model) example_score (columns ex_train) 0 =
       [Some (1 / 4, 1 / 4), Some (5 / 16, 5 / 16)]"
    by (simp add: ex_columns) (simp add: example_defs ex_train_def ex_test_def)
  from identical_tables_score_zero
         [OF example_model_deterministic example_score_deterministic h, of "0.8" True 0]
    example_model_deterministic example_score_deterministic h os
  show ?thesis
    by simp
qed

text \<open>
  C5 as stated fails when the holdout table lacks a column of the training table: with
  the synthetic table identical to the training table and a deterministic model and
  score, column \<open>A\<close> is evaluated (the same score twice) and the call then raises
  \<open>KeyError\<close> for column \<open>B\<close> instead of returning 0.
\<close>

theorem identical_tables_missing_holdout_counterexample:
  "deterministic_model (example_model :: (string, real, nat) model)
   \<and> deterministic_score (example_score :: (string, nat) scorer)
   \<and> feature_prediction_evaluation ex_train ex_test_missing ex_train
        (example_model :: (string, real, nat) model) example_score 0.8 False 0 =
       (Inl (KeyError ''B''),
        \<lparr>real_classifier_scores = [1 / 4], synthetic_classifier_scores = [1 / 4],
           stdout = [PrintScores 0 (1 / 4) (1 / 4)], world = 8\<rparr>)"
proof (intro conjI)
  show "deterministic_model (example_model :: (string, real, nat) model)"
    by (rule example_model_deterministic)
  show "deterministic_score (example_score :: (string, nat) scorer)"
    by (rule example_score_deterministic)
  show "feature_prediction_evaluation ex_train ex_test_missing ex_train
        (example_model :: (string, real, nat) model) example_score 0.8 False 0 =
       (Inl (KeyError ''B''),
        \<lparr>real_classifier_scores = [1 / 4], synthetic_classifier_scores = [1 / 4],
           stdout = [PrintScores 0 (1 / 4) (1 / 4)], world = 8\<rparr>)"
    by (simp add: example_defs ex_train_def ex_test_missing_def)
qed

text \<open>
  C6, as amended. For two tables with the same column set in which every column has at
  least one row, \<open>feature_probabilities_evaluation\<close> returns the sum over the columns
  of the real table of the squared difference of the two marginal probabilities: per
  side, the number of rows holding the second of the column's distinct values in
  ascending order divided by the number of rows, and 0 when the column has fewer than
  two distinct values.
\<close>

theorem marginal_probability_aggregate:
  assumes "set (columns real_df) = set (columns synthetic)"
    and "\<forall>c \<in> set (columns real_df).
           column_values real_df c \<noteq> [] \<and> column_values synthetic c \<noteq> []"
  shows "fst (feature_probabilities_evaluation real_df synthetic plot) =
           Inr (\<Sum>c\<leftarrow>columns real_df.
                  (marginal_probability (column_values real_df c) -
                   marginal_probability (column_values synthetic c))\<^sup>2)"
proof -
  have "set (columns real_df) \<subseteq> set (columns real_df) \<inter> set (columns synthetic)"
    using assms(1) by auto
  from props_loop_value [OF this assms(2), of "[]"] assms(1)
  show ?thesis
    by (simp add: feature_probabilities_evaluation_def squared_differences_def
          zip_map_map comp_def zip_same_conv_map Let_def)
qed

text \<open>
  The witness: column \<open>B\<close> of the synthetic table holds the value 1 only and gets
  probability 0.
\<close>

theorem marginal_probability_aggregate_witness:
  "set (columns ex_train) = set (columns ex_synthetic)
   \<and> column_values ex_train ''A'' \<noteq> [] \<and> column_values ex_synthetic ''A'' \<noteq> []
   \<and> column_values ex_train ''B'' \<noteq> [] \<and> column_values ex_synthetic ''B'' \<noteq> []
   \<and> fst (feature_probabilities_evaluation ex_train ex_synthetic True) =
           Inr (\<Sum>c\<leftarrow>columns ex_train.
                  (marginal_probability (column_values ex_train c) -
                   marginal_probability (column_values ex_synthetic c))\<^sup>2)
   \<and> feature_probabilities_evaluation ex_train ex_synthetic True =
       (Inr (5 / 8), [SaveFig ''dw-prob.png'' [1 / 2, 3 / 4] [1 / 4, 0],
                     ToCsv ''dw-prob.csv'' [1 / 2, 3 / 4] [1 / 4, 0]])"
proof -
  have h1: "set (columns ex_train) = set (columns ex_synthetic)"
    by (auto simp: ex_columns)
  have rows: "column_values ex_train ''A'' \<noteq> []" "column_values ex_synthetic ''A'' \<noteq> []"
    "column_values ex_train ''B'' \<noteq> []" "column_values ex_synthetic ''B'' \<noteq> []"
    by (simp_all add: column_values_def ex_train_def ex_synthetic_def)
  then have h2: "\<forall>c \<in> set (columns ex_train).
           column_values ex_train c \<noteq> [] \<and> column_values ex_synthetic c \<noteq> []"
    by (simp add: ex_columns)
  have h3: "feature_probabilities_evaluation ex_train ex_synthetic True =
       (Inr (5 / 8), [SaveFig ''dw-prob.png'' [1 / 2, 3 / 4] [1 / 4, 0],
                     ToCsv ''dw-prob.csv'' [1 / 2, 3 / 4] [1 / 4, 0]])"
    by (simp add: feature_probabilities_evaluation_def ex_columns insert_commute Let_def)
       (simp add: ex_train_def ex_synthetic_def getitem_def np_unique_counts_def
          np_unique_def index_1_count_def py_div_def squared_differences_def power2_eq_square
          Let_def)
  from marginal_probability_aggregate [OF h1 h2, of True] h1 rows h3
  show ?thesis
    by blast
qed

text \<open>
  C6 as stated fails for a column without rows: such a column has fewer than two
  distinct values, so 0 would be used for its side, but the code divides 0 by the
  number of rows, which is 0, and the call raises \<open>ZeroDivisionError\<close>.
\<close>

theorem marginal_probability_no_rows_counterexample:
  "set (columns ex_train) = set (columns ex_no_rows)
   \<and> card (set (column_values ex_no_rows ''A'')) < 2
   \<and> marginal_probability (column_values ex_no_rows ''A'') = 0
   \<and> feature_probabilities_evaluation ex_train ex_no_rows False =
       (Inl ZeroDivisionError, [])"
proof (intro conjI)
  show "set (columns ex_train) = set (columns ex_no_rows)"
    by (simp add: ex_columns)
  show "card (set (column_values ex_no_rows ''A'')) < 2"
    by (simp add: column_values_def ex_no_rows_def)
  show "marginal_probability (column_values ex_no_rows ''A'') = 0"
    by (simp add: marginal_probability_def column_values_def ex_no_rows_def)
  show "feature_probabilities_evaluation ex_train ex_no_rows False =
       (Inl ZeroDivisionError, [])"
    by (simp add: feature_probabilities_evaluation_def ex_columns)
       (simp add: ex_train_def ex_no_rows_def getitem_def np_unique_counts_def
          np_unique_def index_1_count_def py_div_def)
qed

text \<open>
  C8. The \<open>training_proportion\<close> argument is never read: two calls that differ in it
  alone return the same aggregate and leave the same score lists, output and world.
\<close>

theorem training_proportion_unused:
  "feature_prediction_evaluation train test synthetic Model score p plot w =
   feature_prediction_evaluation train test synthetic Model score p' plot w"
  by (simp add: feature_prediction_evaluation_def)

text \<open>
  C9. When the holdout table lacks a column that the training and the synthetic table
  both have, the call passes the schema check, evaluates the columns before the first
  such column \<open>c\<close>, and then raises \<open>KeyError c\<close> from the isolation of \<open>c\<close> in the
  holdout table: the exception is not caught, the column is not skipped, and no
  aggregate is returned.
\<close>

theorem missing_holdout_column_aborts:
  assumes "set (columns train) = set (columns synthetic)"
    and "column \<in> set (columns train)" and "column \<notin> set (columns test)"
  shows "\<exists>pre c post.
           columns train = pre @ c # post \<and> set pre \<subseteq> set (columns test) \<and>
           c \<notin> set (columns test) \<and>
           feature_prediction_evaluation train test synthetic Model score p plot w =
             (Inl (KeyError c),
              snd (column_loop train test synthetic Model score (enumerate 0 pre)
                     (empty_env w)))"
proof -
  from assms(2,3) have "\<exists>c \<in> set (columns train). c \<notin> set (columns test)"
    by blast
  from split_list_first_prop [OF this]
  obtain pre c post where split: "columns train = pre @ c # post"
    and c: "c \<notin> set (columns test)"
    and pre: "\<forall>x \<in> set pre. \<not> x \<notin> set (columns test)"
    by blast
  let ?loop = "column_loop train test synthetic Model score"
  have pre_sub: "set pre \<subseteq> set (columns test)"
    using pre by auto
  have "snd ` set (enumerate 0 pre) \<subseteq>
          set (columns train) \<inter> set (columns synthetic) \<inter> set (columns test)"
    using pre_sub assms(1) split by (auto simp: snd_enumerate)
  then have "fst (?loop (enumerate 0 pre) (empty_env w)) = None"
    by (rule column_loop_total)
  then obtain st where st: "?loop (enumerate 0 pre) (empty_env w) = (None, st)"
    by (cases "?loop (enumerate 0 pre) (empty_env w)") auto
  have "c \<in> set (columns train)" "c \<in> set (columns synthetic)"
    using split assms(1) by auto
  then obtain Xr yr Xs ys where
    "isolate_column train c = Inr (Xr, yr)" "isolate_column synthetic c = Inr (Xs, ys)"
    using isolate_column_present [of c train] isolate_column_present [of c synthetic]
    by blast
  moreover have "isolate_column test c = Inl (KeyError c)"
    using c by (rule isolate_column_absent)
  ultimately have
    "?loop ((length pre, c) # enumerate (Suc (length pre)) post) st = (Some (KeyError c), st)"
    by simp
  then have "?loop (enumerate 0 (columns train)) (empty_env w) = (Some (KeyError c), st)"
    by (simp add: split enumerate_append column_loop_append st)
  then have "feature_prediction_evaluation train test synthetic Model score p plot w =
      (Inl (KeyError c), snd (?loop (enumerate 0 pre) (empty_env w)))"
    using assms(1) st by (simp add: feature_prediction_evaluation_def)
  with split pre_sub c show ?thesis
    by blast
qed

theorem missing_holdout_column_aborts_witness:
  "set (columns ex_train) = set (columns ex_synthetic)
   \<and> ''B'' \<in> set (columns ex_train) \<and> ''B'' \<notin> set (columns ex_test_missing)
   \<and> (\<exists>pre c post.
         columns ex_train = pre @ c # post \<and> set pre \<subseteq> set (columns ex_test_missing) \<and>
         c \<notin> set (columns ex_test_missing) \<and>
         feature_prediction_evaluation ex_train ex_test_missing ex_synthetic
           (example_model :: (string, real, nat) model) example_score 0.8 True 0 =
           (Inl (KeyError c),
            snd (column_loop ex_train ex_test_missing ex_synthetic example_model example_score
                   (enumerate 0 pre) (empty_env 0))))"
proof -
  have h1: "set (columns ex_train) = set (columns ex_synthetic)"
    by (auto simp: ex_columns)
  have h2: "''B'' \<in> set (columns ex_train)" and h3: "''B'' \<notin> set (columns ex_test_missing)"
    by (simp_all add: ex_columns)
  from missing_holdout_column_aborts [OF h1 h2 h3, of example_model example_score "0.8" True 0]
    h1 h2 h3
  show ?thesis
    by blast
qed

text \<open>
  C10. The two score lists have the same length at every point of a run: after any
  number \<open>k\<close> of iterations of the column loop, and in the state the call ends in
  (whether it returns or raises); one iteration appends one score to each list or
  leaves both lists as they are.
\<close>

theorem score_lists_same_length:
  "length (real_classifier_scores
             (snd (column_loop train test synthetic Model score
                     (take k (enumerate 0 (columns train))) (empty_env w)))) =
   length (synthetic_classifier_scores
             (snd (column_loop train test synthetic Model score
                     (take k (enumerate 0 (columns train))) (empty_env w))))
   \<and> length (real_classifier_scores
               (snd (feature_prediction_evaluation train test synthetic Model score p plot w))) =
     length (synthetic_classifier_scores
               (snd (feature_prediction_evaluation train test synthetic Model score p plot w)))
   \<and> ((real_classifier_scores (try_column i Xr yr Xs ys Xt yt Model score st) =
          real_classifier_scores st \<and>
        synthetic_classifier_scores (try_column i Xr yr Xs ys Xt yt Model score st) =
          synthetic_classifier_scores st)
      \<or> (\<exists>r s.
            real_classifier_scores (try_column i Xr yr Xs ys Xt yt Model score st) =
              real_classifier_scores st @ [r] \<and>
            synthetic_classifier_scores (try_column i Xr yr Xs ys Xt yt Model score st) =
              synthetic_classifier_scores st @ [s]))"
proof (intro conjI)
  show "length (real_classifier_scores
             (snd (column_loop train test synthetic Model score
                     (take k (enumerate 0 (columns train))) (empty_env w)))) =
   length (synthetic_classifier_scores
             (snd (column_loop train test synthetic Model score
                     (take k (enumerate 0 (columns train))) (empty_env w))))"
    by (rule column_loop_lengths) (simp add: empty_env_def)
next
  have "length (real_classifier_scores
             (snd (column_loop train test synthetic Model score
                     (enumerate 0 (columns train)) (empty_env w)))) =
   length (synthetic_classifier_scores
             (snd (column_loop train test synthetic Model score
                     (enumerate 0 (columns train)) (empty_env w))))"
    by (rule column_loop_lengths) (simp add: empty_env_def)
  then show "length (real_classifier_scores
               (snd (feature_prediction_evaluation train test synthetic Model score p plot w))) =
     length (synthetic_classifier_scores
               (snd (feature_prediction_evaluation train test synthetic Model score p plot w)))"
    by (auto simp: feature_prediction_evaluation_def empty_env_def Let_def
             split: prod.splits option.splits)
next
  show "(real_classifier_scores (try_column i Xr yr Xs ys Xt yt Model score st) =
          real_classifier_scores st \<and>
        synthetic_classifier_scores (try_column i Xr yr Xs ys Xt yt Model score st) =
          synthetic_classifier_scores st)
      \<or> (\<exists>r s.
            real_classifier_scores (try_column i Xr yr Xs ys Xt yt Model score st) =
              real_classifier_scores st @ [r] \<and>
            synthetic_classifier_scores (try_column i Xr yr Xs ys Xt yt Model score st) =
              synthetic_classifier_scores st @ [s])"
    by (simp add: try_column_def split: prod.splits sum.splits)
qed

end
